theory Spec2Isabelle
  imports Main "HOL-Library.Word"
begin

section \<open>Python values\<close>

text \<open>
  The endpoint methods of \<open>pynxm.Nexus\<close> are dynamically typed: an argument may be any
  Python value, and \<open>response.json()\<close> yields any JSON value. Both are values of one
  datatype. A float is kept as its 64 bits: the program never computes with one. Every
  dict of the program (request parameters, form data, decoded JSON objects) has string
  keys; a dict is the list of its items in insertion order, with distinct keys.
\<close>

datatype py =
    PyNone
  | PyBool bool
  | PyInt int
  | PyFloat "64 word"
  | PyStr string
  | PyList "py list"
  | PyTuple "py list"
  | PyDict "(string \<times> py) list"

type_synonym pdict = "(string \<times> py) list"
type_synonym hdict = "(string \<times> string) list"

text \<open>The exceptions that leave the modelled code.\<close>

datatype error =
    LimitReachedError string
  | RequestError string
  | ValueError string
  | KeyError string
  | TypeError
  | JSONDecodeError

section \<open>Strings\<close>

text \<open>\<open>a in b\<close> on strings: \<open>needle\<close> occurs in \<open>hay\<close> as a contiguous substring.\<close>

fun startswith :: "string \<Rightarrow> string \<Rightarrow> bool" where
  "startswith s [] = True"
| "startswith [] (p # ps) = False"
| "startswith (c # cs) (p # ps) = (c = p \<and> startswith cs ps)"

fun str_in :: "string \<Rightarrow> string \<Rightarrow> bool" where
  "str_in needle [] = (needle = [])"
| "str_in needle (c # cs) = (startswith (c # cs) needle \<or> str_in needle cs)"

text \<open>
  \<open>str.upper\<close> and \<open>str.lower\<close> on ASCII letters; every other byte is kept. The
  operations and header names of the program are ASCII literals.
\<close>

definition lowers :: string where "lowers = ''abcdefghijklmnopqrstuvwxyz''"
definition uppers :: string where "uppers = ''ABCDEFGHIJKLMNOPQRSTUVWXYZ''"

definition upper_char :: "char \<Rightarrow> char" where
  "upper_char c = (case map_of (zip lowers uppers) c of None \<Rightarrow> c | Some u \<Rightarrow> u)"

definition lower_char :: "char \<Rightarrow> char" where
  "lower_char c = (case map_of (zip uppers lowers) c of None \<Rightarrow> c | Some l \<Rightarrow> l)"

definition upper :: "string \<Rightarrow> string" where
  "upper s = map upper_char s"

definition lower :: "string \<Rightarrow> string" where
  "lower s = map lower_char s"

text \<open>\<open>str(n)\<close> for an int: decimal digits, with a minus sign below zero.\<close>

definition digit_char :: "nat \<Rightarrow> char" where
  "digit_char d = ''0123456789'' ! d"

function str_nat :: "nat \<Rightarrow> string" where
  "str_nat n = (if n < 10 then [digit_char n] else str_nat (n div 10) @ [digit_char (n mod 10)])"
  by pat_completeness auto
termination
  by (relation "measure (\<lambda>n. n)") auto

declare str_nat.simps [simp del]

definition str_int :: "int \<Rightarrow> string" where
  "str_int i = (if i < 0 then CHR ''-'' # str_nat (nat (- i)) else str_nat (nat i))"

text \<open>
  What \<open>"{}".format(v)\<close> puts in place of the braces, that is \<open>str(v)\<close>: a string is
  itself, an int its decimal digits. The text of a float or of a container is the
  interpreter's \<open>repr\<close>, taken as the parameter \<open>rp\<close>.
\<close>

definition format_arg :: "(py \<Rightarrow> string) \<Rightarrow> py \<Rightarrow> string" where
  "format_arg rp v =
     (case v of
        PyStr s \<Rightarrow> s
      | PyInt i \<Rightarrow> str_int i
      | PyBool b \<Rightarrow> (if b then ''True'' else ''False'')
      | PyNone \<Rightarrow> ''None''
      | _ \<Rightarrow> rp v)"

text \<open>\<open>sep.join(xs)\<close>: every item must be a \<open>str\<close>, otherwise TypeError.\<close>

fun is_str :: "py \<Rightarrow> bool" where
  "is_str (PyStr s) = True"
| "is_str v = False"

fun the_str :: "py \<Rightarrow> string" where
  "the_str (PyStr s) = s"
| "the_str v = []"

fun intersperse_str :: "string \<Rightarrow> string list \<Rightarrow> string" where
  "intersperse_str sep [] = []"
| "intersperse_str sep [x] = x"
| "intersperse_str sep (x # y # ys) = x @ sep @ intersperse_str sep (y # ys)"

definition join :: "string \<Rightarrow> py list \<Rightarrow> error + string" where
  "join sep xs =
     (if list_all is_str xs then Inr (intersperse_str sep (map the_str xs)) else Inl TypeError)"

section \<open>Dicts\<close>

text \<open>\<open>d[k] = v\<close>: a key already present keeps its place and takes the new value.\<close>

fun dict_set :: "('k \<times> 'v) list \<Rightarrow> 'k \<Rightarrow> 'v \<Rightarrow> ('k \<times> 'v) list" where
  "dict_set [] k v = [(k, v)]"
| "dict_set ((k', v') # d) k v = (if k' = k then (k, v) # d else (k', v') # dict_set d k v)"

text \<open>\<open>v[k]\<close> on a decoded JSON value: KeyError on a missing key, TypeError off a dict.\<close>

definition getitem :: "py \<Rightarrow> string \<Rightarrow> error + py" where
  "getitem v k =
     (case v of
        PyDict d \<Rightarrow> (case map_of d k of None \<Rightarrow> Inl (KeyError k) | Some x \<Rightarrow> Inr x)
      | _ \<Rightarrow> Inl TypeError)"

text \<open>
  The headers of a session and of a response are case-insensitive dicts of the HTTP
  library: a key is found whatever its case, and setting it stores the new spelling in
  the old place.
\<close>

fun ci_set :: "hdict \<Rightarrow> string \<Rightarrow> string \<Rightarrow> hdict" where
  "ci_set [] k v = [(k, v)]"
| "ci_set ((k', v') # d) k v =
     (if lower k' = lower k then (k, v) # d else (k', v') # ci_set d k v)"

fun ci_get :: "hdict \<Rightarrow> string \<Rightarrow> string option" where
  "ci_get [] k = None"
| "ci_get ((k', v') # d) k = (if lower k' = lower k then Some v' else ci_get d k)"

definition ci_update :: "hdict \<Rightarrow> hdict \<Rightarrow> hdict" where
  "ci_update d new = foldl (\<lambda>acc (k, v). ci_set acc k v) d new"

section \<open>The HTTP collaborator\<close>

text \<open>
  The keyword arguments of one \<open>self.session.request(...)\<close> call, and the part of the
  response that \<open>_make_request\<close> reads. \<open>resp_json\<close> is what \<open>response.json()\<close>
  does: \<open>Some v\<close> when the body decodes to \<open>v\<close>, \<open>None\<close> when decoding raises.
\<close>

record request =
  req_method :: string
  req_url :: string
  req_params :: pdict
  req_data :: pdict
  req_headers :: hdict
  req_timeout :: nat

record response =
  resp_status_code :: int
  resp_headers :: hdict
  resp_reason :: string
  resp_json :: "py option"

definition json :: "response \<Rightarrow> error + py" where
  "json r = (case resp_json r of None \<Rightarrow> Inl JSONDecodeError | Some v \<Rightarrow> Inr v)"

text \<open>
  What the program takes from outside: the transport, answering each request with a
  response; the interpreter's \<open>repr\<close>; the default headers of a fresh
  \<open>requests.Session()\<close>; and the module constant \<open>USER_AGENT\<close>, computed from the
  platform at import time.
\<close>

record runtime =
  session_request :: "request \<Rightarrow> response"
  repr :: "py \<Rightarrow> string"
  default_headers :: hdict
  USER_AGENT :: string

definition BASE_URL :: string where
  "BASE_URL = ''https://api.nexusmods.com/v1/''"

section \<open>The client\<close>

text \<open>
  A \<open>Nexus\<close> object: the persistent headers of its session and \<open>nexus_headers\<close>.
  \<open>calls\<close> records the requests handed to the transport so far, oldest first, as
  \<open>responses.calls\<close> does in the test suite; the program never reads it.
\<close>

record nexus =
  session_headers :: hdict
  nexus_headers :: hdict
  calls :: "request list"

definition init :: "runtime \<Rightarrow> string \<Rightarrow> nexus" where
  "init rt api_key =
     \<lparr> session_headers =
         ci_update (default_headers rt)
           [(''user-agent'', USER_AGENT rt),
            (''apikey'', api_key),
            (''content-type'', ''application/json'')],
       nexus_headers = [],
       calls = [] \<rparr>"

text \<open>\<open>{k: v for k, v in response.headers.items() if "X-" in k}\<close>\<close>

definition x_headers :: "hdict \<Rightarrow> hdict" where
  "x_headers items =
     foldl (\<lambda>d (k, v). if str_in ''X-'' k then dict_set d k v else d) [] items"

definition status_message :: "int \<Rightarrow> string \<Rightarrow> string" where
  "status_message code msg = ''Status Code '' @ str_int code @ '' - '' @ msg"

definition limit_message :: string where
  "limit_message =
     ''You have reached your request limit. '' @ ''Please wait one hour before trying again.''"

text \<open>
  Lines 117 to 120: \<open>response.json()["message"]\<close>, and on KeyError (no other
  exception is caught) \<open>response.json()["error"]\<close>.
\<close>

definition error_field :: "response \<Rightarrow> error + py" where
  "error_field response =
     (case (case json response of Inl e \<Rightarrow> Inl e | Inr v \<Rightarrow> getitem v ''message'') of
        Inl (KeyError k) \<Rightarrow>
          (case json response of Inl e \<Rightarrow> Inl e | Inr v \<Rightarrow> getitem v ''error'')
      | other \<Rightarrow> other)"

text \<open>
  Lines 92 to 105: absent \<open>payload\<close>, \<open>data\<close> and \<open>headers\<close> become empty dicts, and
  these are the arguments of the one \<open>self.session.request\<close> call.
\<close>

definition or_empty :: "'a list option \<Rightarrow> 'a list" where
  "or_empty d = (case d of None \<Rightarrow> [] | Some x \<Rightarrow> x)"

definition call_args ::
  "string \<Rightarrow> string \<Rightarrow> pdict option \<Rightarrow> pdict option \<Rightarrow> hdict option \<Rightarrow> request" where
  "call_args operation endpoint payload data headers =
     (let payload = or_empty payload;
          data = or_empty data;
          headers = or_empty headers
      in \<lparr> req_method = upper operation, req_url = BASE_URL @ endpoint,
           req_params = payload, req_data = data, req_headers = headers,
           req_timeout = 30 \<rparr>)"

definition make_request ::
  "runtime \<Rightarrow> nexus \<Rightarrow> string \<Rightarrow> string \<Rightarrow> pdict option \<Rightarrow> pdict option \<Rightarrow> hdict option
     \<Rightarrow> (error + py) \<times> nexus" where
  "make_request rt self operation endpoint payload data headers =
     (let req = call_args operation endpoint payload data headers;
          response = session_request rt req;
          self = self \<lparr> calls := calls self @ [req] \<rparr>;
          status_code = resp_status_code response;
          self = self \<lparr> nexus_headers := x_headers (resp_headers response) \<rparr>
      in if status_code \<notin> set [200, 201] then
           if status_code = 429 then (Inl (LimitReachedError limit_message), self)
           else if status_code \<in> set [503, 504] then
             (Inl (RequestError (status_message status_code (resp_reason response))), self)
           else
             (case error_field response of
                Inl e \<Rightarrow> (Inl e, self)
              | Inr msg \<Rightarrow>
                  (Inl (RequestError (status_message status_code (format_arg (repr rt) msg))),
                   self))
         else (json response, self))"

section \<open>Endpoint methods\<close>

text \<open>
  A method that ends in \<open>return self._make_request(...)\<close> is that call. An argument
  with a default (\<open>include_unapproved=False\<close>, \<open>categories=None\<close>, \<open>nxm_key=None\<close>,
  \<open>expires=None\<close>) is passed explicitly, the default standing for an omitted one.
\<close>

definition colour_schemes_list :: "runtime \<Rightarrow> nexus \<Rightarrow> (error + py) \<times> nexus" where
  "colour_schemes_list rt self = make_request rt self ''get'' ''colourschemes.json'' None None None"

definition user_details :: "runtime \<Rightarrow> nexus \<Rightarrow> (error + py) \<times> nexus" where
  "user_details rt self = make_request rt self ''get'' ''users/validate.json'' None None None"

definition user_tracked_list :: "runtime \<Rightarrow> nexus \<Rightarrow> (error + py) \<times> nexus" where
  "user_tracked_list rt self =
     make_request rt self ''get'' ''user/tracked_mods.json'' None None None"

text \<open>
  The two tracking methods call \<open>_make_request\<close> as a statement: an exception
  propagates, a decoded result is dropped and the method returns \<open>None\<close>.
\<close>

definition returns_none :: "(error + py) \<times> nexus \<Rightarrow> (error + py) \<times> nexus" where
  "returns_none out =
     (case out of (Inl e, self) \<Rightarrow> (Inl e, self) | (Inr v, self) \<Rightarrow> (Inr PyNone, self))"

definition user_tracked_add :: "runtime \<Rightarrow> nexus \<Rightarrow> py \<Rightarrow> py \<Rightarrow> (error + py) \<times> nexus" where
  "user_tracked_add rt self game mod_id =
     returns_none
       (make_request rt self ''post'' ''user/tracked_mods.json''
          (Some [(''domain_name'', game)])
          (Some [(''mod_id'', mod_id)])
          (Some [(''content-type'', ''application/x-www-form-urlencoded'')]))"

definition user_tracked_delete :: "runtime \<Rightarrow> nexus \<Rightarrow> py \<Rightarrow> py \<Rightarrow> (error + py) \<times> nexus" where
  "user_tracked_delete rt self game mod_id =
     returns_none
       (make_request rt self ''delete'' ''user/tracked_mods.json''
          (Some [(''domain_name'', game)])
          (Some [(''mod_id'', mod_id)])
          (Some [(''content-type'', ''application/x-www-form-urlencoded'')]))"

definition user_endorsements_list :: "runtime \<Rightarrow> nexus \<Rightarrow> (error + py) \<times> nexus" where
  "user_endorsements_list rt self =
     make_request rt self ''get'' ''user/endorsements.json'' None None None"

definition game_details :: "runtime \<Rightarrow> nexus \<Rightarrow> py \<Rightarrow> (error + py) \<times> nexus" where
  "game_details rt self game =
     make_request rt self ''get'' (''games/'' @ format_arg (repr rt) game @ ''.json'')
       None None None"

definition game_list :: "runtime \<Rightarrow> nexus \<Rightarrow> py \<Rightarrow> (error + py) \<times> nexus" where
  "game_list rt self include_unapproved =
     make_request rt self ''get'' ''games.json''
       (Some [(''include_unapproved'', include_unapproved)]) None None"

definition period_message :: string where
  "period_message = ''Allowed values for 'period' argument: '1d', '1w', '1m'.''"

definition game_updated_list :: "runtime \<Rightarrow> nexus \<Rightarrow> py \<Rightarrow> py \<Rightarrow> (error + py) \<times> nexus" where
  "game_updated_list rt self game period =
     (if period \<notin> set [PyStr ''1d'', PyStr ''1w'', PyStr ''1m'']
      then (Inl (ValueError period_message), self)
      else make_request rt self ''get''
             (''games/'' @ format_arg (repr rt) game @ ''/mods/updated.json'')
             (Some [(''period'', period)]) None None)"

definition game_latest_added_list :: "runtime \<Rightarrow> nexus \<Rightarrow> py \<Rightarrow> (error + py) \<times> nexus" where
  "game_latest_added_list rt self game =
     make_request rt self ''get''
       (''games/'' @ format_arg (repr rt) game @ ''/mods/latest_added.json'') None None None"

definition game_latest_updated_list :: "runtime \<Rightarrow> nexus \<Rightarrow> py \<Rightarrow> (error + py) \<times> nexus" where
  "game_latest_updated_list rt self game =
     make_request rt self ''get''
       (''games/'' @ format_arg (repr rt) game @ ''/mods/latest_updated.json'') None None None"

definition game_trending_list :: "runtime \<Rightarrow> nexus \<Rightarrow> py \<Rightarrow> (error + py) \<times> nexus" where
  "game_trending_list rt self game =
     make_request rt self ''get''
       (''games/'' @ format_arg (repr rt) game @ ''/mods/trending.json'') None None None"

definition mod_details :: "runtime \<Rightarrow> nexus \<Rightarrow> py \<Rightarrow> py \<Rightarrow> (error + py) \<times> nexus" where
  "mod_details rt self game mod_id =
     make_request rt self ''get''
       (''games/'' @ format_arg (repr rt) game @ ''/mods/'' @ format_arg (repr rt) mod_id
          @ ''.json'')
       None None None"

definition mod_search :: "runtime \<Rightarrow> nexus \<Rightarrow> py \<Rightarrow> py \<Rightarrow> (error + py) \<times> nexus" where
  "mod_search rt self game md5_hash =
     make_request rt self ''get''
       (''games/'' @ format_arg (repr rt) game @ ''/mods/md5_search/''
          @ format_arg (repr rt) md5_hash @ ''.json'')
       None None None"

definition mod_endorse :: "runtime \<Rightarrow> nexus \<Rightarrow> py \<Rightarrow> py \<Rightarrow> (error + py) \<times> nexus" where
  "mod_endorse rt self game mod_id =
     make_request rt self ''post''
       (''games/'' @ format_arg (repr rt) game @ ''/mods/'' @ format_arg (repr rt) mod_id
          @ ''/endorse.json'')
       None None None"

definition mod_abstain :: "runtime \<Rightarrow> nexus \<Rightarrow> py \<Rightarrow> py \<Rightarrow> (error + py) \<times> nexus" where
  "mod_abstain rt self game mod_id =
     make_request rt self ''post''
       (''games/'' @ format_arg (repr rt) game @ ''/mods/'' @ format_arg (repr rt) mod_id
          @ ''/abstain.json'')
       None None None"

text \<open>
  \<open>isinstance(categories, (tuple, list))\<close>, then \<open>isinstance(categories, str)\<close>, then
  everything else, \<open>None\<close> included. A \<open>join\<close> that raises leaves before any request.
\<close>

definition category_payload :: "py \<Rightarrow> error + pdict option" where
  "category_payload categories =
     (case categories of
        PyList xs \<Rightarrow>
          (case join '','' xs of Inl e \<Rightarrow> Inl e
           | Inr s \<Rightarrow> Inr (Some [(''category'', PyStr s)]))
      | PyTuple xs \<Rightarrow>
          (case join '','' xs of Inl e \<Rightarrow> Inl e
           | Inr s \<Rightarrow> Inr (Some [(''category'', PyStr s)]))
      | PyStr s \<Rightarrow> Inr (Some [(''category'', categories)])
      | _ \<Rightarrow> Inr None)"

definition mod_file_list :: "runtime \<Rightarrow> nexus \<Rightarrow> py \<Rightarrow> py \<Rightarrow> py \<Rightarrow> (error + py) \<times> nexus" where
  "mod_file_list rt self game mod_id categories =
     (case category_payload categories of
        Inl e \<Rightarrow> (Inl e, self)
      | Inr payload \<Rightarrow>
          make_request rt self ''get''
            (''games/'' @ format_arg (repr rt) game @ ''/mods/'' @ format_arg (repr rt) mod_id
               @ ''/files.json'')
            payload None None)"

definition mod_file_details :: "runtime \<Rightarrow> nexus \<Rightarrow> py \<Rightarrow> py \<Rightarrow> py \<Rightarrow> (error + py) \<times> nexus" where
  "mod_file_details rt self game mod_id file_id =
     make_request rt self ''get''
       (''games/'' @ format_arg (repr rt) game @ ''/mods/'' @ format_arg (repr rt) mod_id
          @ ''/files/'' @ format_arg (repr rt) file_id @ ''.json'')
       None None None"

definition mod_file_download_link ::
  "runtime \<Rightarrow> nexus \<Rightarrow> py \<Rightarrow> py \<Rightarrow> py \<Rightarrow> py \<Rightarrow> py \<Rightarrow> (error + py) \<times> nexus" where
  "mod_file_download_link rt self game mod_id file_id nxm_key expires =
     (let payload = (if PyNone \<in> set [nxm_key, expires] then None
                     else Some [(''key'', nxm_key), (''expires'', expires)])
      in make_request rt self ''get''
           (''games/'' @ format_arg (repr rt) game @ ''/mods/'' @ format_arg (repr rt) mod_id
              @ ''/files/'' @ format_arg (repr rt) file_id @ ''/'' @ ''download_link.json'')
           payload None None)"

definition mod_changelog_list :: "runtime \<Rightarrow> nexus \<Rightarrow> py \<Rightarrow> py \<Rightarrow> (error + py) \<times> nexus" where
  "mod_changelog_list rt self game mod_id =
     make_request rt self ''get''
       (''games/'' @ format_arg (repr rt) game @ ''/mods/'' @ format_arg (repr rt) mod_id
          @ ''/changelogs.json'')
       None None None"

text \<open>
  Modelled from the spec: the header merge of \<open>Session.call\<close> (section 4.1), done in
  the source by the HTTP library's \<open>Session.request\<close>, which is not under src/. The
  request goes out with "the persistent headers merged with any call-specific header
  overrides (call-specific values win on conflict)".
\<close>

definition merged_headers :: "nexus \<Rightarrow> request \<Rightarrow> hdict" where
  "merged_headers self req = ci_update (session_headers self) (req_headers req)"

section \<open>The test double\<close>

text \<open>
  The test suite replaces the transport by one that answers with a prepared response
  (\<open>responses.add(..., json=..., status=...)\<close>) and works on
  \<open>TEST_INSTANCE = pynxm.Nexus("test-key")\<close> with \<open>TEST_JSON = {"test": "content"}\<close>.
  The concrete runs below use the same set-up.
\<close>

definition prepared :: "int \<Rightarrow> hdict \<Rightarrow> string \<Rightarrow> py option \<Rightarrow> runtime" where
  "prepared status hdrs phrase body =
     \<lparr> session_request =
         (\<lambda>req. \<lparr> resp_status_code = status, resp_headers = hdrs, resp_reason = phrase,
                    resp_json = body \<rparr>),
       repr = (\<lambda>v. ''<repr>''),
       default_headers = [(''User-Agent'', ''python-requests''), (''Accept'', ''*/*'')],
       USER_AGENT = ''pynxm/0.1.0'' \<rparr>"

definition TEST_JSON :: py where
  "TEST_JSON = PyDict [(''test'', PyStr ''content'')]"

definition TEST_INSTANCE :: nexus where
  "TEST_INSTANCE =
     \<lparr> session_headers =
         [(''user-agent'', ''pynxm/0.1.0''), (''Accept'', ''*/*''), (''apikey'', ''test-key''),
          (''content-type'', ''application/json'')],
       nexus_headers = [],
       calls = [] \<rparr>"

definition rate_headers :: hdict where
  "rate_headers =
     [(''Content-Type'', ''application/json''), (''X-RL-Daily-Remaining'', ''2499''),
      (''x-powered-by'', ''nexus''), (''X-RL-Hourly-Remaining'', ''99'')]"

section \<open>Facts about the model\<close>

lemma dict_set_fresh: "k \<notin> fst ` set d \<Longrightarrow> dict_set d k v = d @ [(k, v)]"
  by (induction d) auto

lemma x_headers_foldl:
  "distinct (map fst (acc @ items)) \<Longrightarrow>
   foldl (\<lambda>d (k, v). if str_in ''X-'' k then dict_set d k v else d) acc items
     = acc @ filter (\<lambda>(k, v). str_in ''X-'' k) items"
proof (induction items arbitrary: acc)
  case Nil
  then show ?case by simp
next
  case (Cons kv items)
  obtain k v where kv: "kv = (k, v)" by (cases kv)
  show ?case
  proof (cases "str_in ''X-'' k")
    case True
    from Cons.prems kv have fresh: "k \<notin> fst ` set acc" by auto
    from Cons.prems kv have "distinct (map fst ((acc @ [(k, v)]) @ items))" by auto
    from Cons.IH [OF this] True kv fresh show ?thesis
      by (simp add: dict_set_fresh)
  next
    case False
    from Cons.prems kv have "distinct (map fst (acc @ items))" by auto
    from Cons.IH [OF this] False kv show ?thesis by simp
  qed
qed

lemma x_headers_filter:
  "distinct (map fst items) \<Longrightarrow> x_headers items = filter (\<lambda>(k, v). str_in ''X-'' k) items"
  using x_headers_foldl [of "[]" items] by (simp add: x_headers_def)

lemma startswith_iff: "startswith s p \<longleftrightarrow> (\<exists>t. s = p @ t)"
  by (induction s p rule: startswith.induct) auto

lemma str_in_iff: "str_in needle hay \<longleftrightarrow> (\<exists>a b. hay = a @ needle @ b)"
proof (induction hay)
  case Nil
  then show ?case by auto
next
  case (Cons c cs)
  note IH = Cons.IH
  show ?case
  proof
    assume "str_in needle (c # cs)"
    then consider "startswith (c # cs) needle" | "str_in needle cs" by auto
    then show "\<exists>a b. c # cs = a @ needle @ b"
    proof cases
      case 1
      then obtain t where "c # cs = needle @ t" by (auto simp: startswith_iff)
      then have "c # cs = [] @ needle @ t" by simp
      then show ?thesis by blast
    next
      case 2
      with IH obtain a b where "cs = a @ needle @ b" by auto
      then have "c # cs = (c # a) @ needle @ b" by simp
      then show ?thesis by blast
    qed
  next
    assume "\<exists>a b. c # cs = a @ needle @ b"
    then obtain a b where ab: "c # cs = a @ needle @ b" by auto
    show "str_in needle (c # cs)"
    proof (cases a)
      case Nil
      with ab have "startswith (c # cs) needle" by (auto simp: startswith_iff)
      then show ?thesis by simp
    next
      case (Cons a0 as)
      with ab have "cs = as @ needle @ b" by simp
      with IH have "str_in needle cs" by auto
      then show ?thesis by simp
    qed
  qed
qed

lemma make_request_state:
  "snd (make_request rt self operation endpoint payload data headers) =
     self \<lparr> calls := calls self @ [call_args operation endpoint payload data headers],
            nexus_headers := x_headers (resp_headers (session_request rt
                (call_args operation endpoint payload data headers))) \<rparr>"
  by (simp add: make_request_def Let_def split: sum.splits)

lemma make_request_result:
  "fst (make_request rt self operation endpoint payload data headers) =
     (let response = session_request rt (call_args operation endpoint payload data headers);
          status_code = resp_status_code response
      in if status_code = 200 \<or> status_code = 201 then json response
         else if status_code = 429 then Inl (LimitReachedError limit_message)
         else if status_code = 503 \<or> status_code = 504
           then Inl (RequestError (status_message status_code (resp_reason response)))
         else (case error_field response of
                 Inl e \<Rightarrow> Inl e
               | Inr msg \<Rightarrow>
                   Inl (RequestError (status_message status_code (format_arg (repr rt) msg)))))"
  by (simp add: make_request_def Let_def split: sum.splits)

lemma make_request_calls:
  "calls (snd (make_request rt self operation endpoint payload data headers)) =
     calls self @ [call_args operation endpoint payload data headers]"
  by (simp add: make_request_state)

lemma make_request_session_headers:
  "session_headers (snd (make_request rt self operation endpoint payload data headers)) =
     session_headers self"
  by (simp add: make_request_state)

lemma error_field_message:
  "resp_json r = Some (PyDict d) \<Longrightarrow> map_of d ''message'' = Some x \<Longrightarrow> error_field r = Inr x"
  by (simp add: error_field_def json_def getitem_def)

lemma error_field_error:
  "resp_json r = Some (PyDict d) \<Longrightarrow> map_of d ''message'' = None \<Longrightarrow>
   map_of d ''error'' = Some y \<Longrightarrow> error_field r = Inr y"
  by (simp add: error_field_def json_def getitem_def)

lemma error_field_neither:
  "resp_json r = Some (PyDict d) \<Longrightarrow> map_of d ''message'' = None \<Longrightarrow>
   map_of d ''error'' = None \<Longrightarrow> error_field r = Inl (KeyError ''error'')"
  by (simp add: error_field_def json_def getitem_def)

lemma snd_returns_none: "snd (returns_none out) = snd out"
  by (cases out) (simp add: returns_none_def split: sum.splits)

lemma fst_returns_none:
  "fst (returns_none out) = (case fst out of Inl e \<Rightarrow> Inl e | Inr v \<Rightarrow> Inr PyNone)"
  by (cases out) (simp add: returns_none_def split: sum.splits)

lemma upper_get: "upper ''get'' = ''GET''"
  by (simp add: upper_def upper_char_def lowers_def uppers_def)

lemma upper_post: "upper ''post'' = ''POST''"
  by (simp add: upper_def upper_char_def lowers_def uppers_def)

lemma ci_get_ci_set_same: "ci_get (ci_set d k v) k = Some v"
  by (induction d k v rule: ci_set.induct) auto

lemma ci_get_ci_set_other:
  "lower k' \<noteq> lower k \<Longrightarrow> ci_get (ci_set d k v) k' = ci_get d k'"
  by (induction d k v rule: ci_set.induct) auto

lemma test_instance_init: "init (prepared st hs ph b) ''test-key'' = TEST_INSTANCE"
  by (simp add: init_def prepared_def TEST_INSTANCE_def ci_update_def lower_def lower_char_def
      lowers_def uppers_def)

lemma make_request_ok:
  assumes "\<forall>q. (resp_status_code (session_request rt q) = 200
                 \<or> resp_status_code (session_request rt q) = 201)
               \<and> resp_json (session_request rt q) = Some v"
  shows "fst (make_request rt self operation endpoint payload data headers) = Inr v"
  using assms by (auto simp: make_request_result Let_def json_def)

lemma tracked_add_none_or_error:
  "fst (user_tracked_add rt self game mod_id) = Inr x \<Longrightarrow> x = PyNone"
  by (auto simp: user_tracked_add_def fst_returns_none split: sum.splits)

lemma tracked_delete_none_or_error:
  "fst (user_tracked_delete rt self game mod_id) = Inr x \<Longrightarrow> x = PyNone"
  by (auto simp: user_tracked_delete_def fst_returns_none split: sum.splits)

lemma download_link_either_omitted:
  "nxm_key = PyNone \<or> expires = PyNone \<Longrightarrow>
   map req_params (calls (snd (mod_file_download_link rt self game mod_id file_id nxm_key expires)))
     = map req_params (calls self) @ [[]]"
  by (auto simp: mod_file_download_link_def make_request_calls call_args_def or_empty_def)

section \<open>The claims\<close>

text \<open>
  Claim C1. Whatever the operation, the endpoint and the payload, data and header
  mappings: when the response has status 200 or 201, \<open>_make_request\<close> returns what
  \<open>response.json()\<close> yields, the decoded body itself, unchanged. (A body that does not
  decode makes \<open>response.json()\<close> raise, and that exception is the outcome.)
\<close>

theorem success_returns_decoded_body:
  assumes "session_request rt (call_args operation endpoint payload data headers) = r"
      and "resp_status_code r = 200 \<or> resp_status_code r = 201"
  shows "fst (make_request rt self operation endpoint payload data headers) =
           (case resp_json r of None \<Rightarrow> Inl JSONDecodeError | Some v \<Rightarrow> Inr v)"
  using assms by (auto simp: make_request_result Let_def json_def)

theorem success_returns_decoded_body_witness:
  "session_request (prepared 200 rate_headers ''OK'' (Some TEST_JSON))
       (call_args ''get'' ''colourschemes.json'' None None None) =
     \<lparr> resp_status_code = 200, resp_headers = rate_headers, resp_reason = ''OK'',
       resp_json = Some TEST_JSON \<rparr>
   \<and> fst (make_request (prepared 200 rate_headers ''OK'' (Some TEST_JSON)) TEST_INSTANCE
            ''get'' ''colourschemes.json'' None None None) = Inr TEST_JSON"
proof -
  have sent: "session_request (prepared 200 rate_headers ''OK'' (Some TEST_JSON))
       (call_args ''get'' ''colourschemes.json'' None None None) =
     \<lparr> resp_status_code = 200, resp_headers = rate_headers, resp_reason = ''OK'',
       resp_json = Some TEST_JSON \<rparr>"
    by (simp add: prepared_def)
  have "fst (make_request (prepared 200 rate_headers ''OK'' (Some TEST_JSON)) TEST_INSTANCE
            ''get'' ''colourschemes.json'' None None None) = Inr TEST_JSON"
    using success_returns_decoded_body [OF sent, of TEST_INSTANCE] by simp
  with sent show ?thesis by simp
qed

text \<open>
  Claim C2. When the response has status 429, \<open>_make_request\<close> raises
  \<open>LimitReachedError\<close> with the fixed message, which tells the caller to wait one
  hour. The body plays no part: with any other body in its place, decodable or not, the
  outcome is the same.
\<close>

theorem limit_reached_on_429:
  assumes "session_request rt (call_args operation endpoint payload data headers) = r"
      and "resp_status_code r = 429"
  shows "fst (make_request rt self operation endpoint payload data headers) =
           Inl (LimitReachedError limit_message)
         \<and> str_in ''Please wait one hour'' limit_message
         \<and> (\<forall>body. fst (make_request
                (rt \<lparr> session_request := (\<lambda>q. (session_request rt q) \<lparr> resp_json := body \<rparr>) \<rparr>)
                self operation endpoint payload data headers) =
              Inl (LimitReachedError limit_message))"
proof (intro conjI allI)
  show "fst (make_request rt self operation endpoint payload data headers) =
           Inl (LimitReachedError limit_message)"
    using assms by (simp add: make_request_result Let_def)
  show "str_in ''Please wait one hour'' limit_message"
    by (simp add: limit_message_def)
  fix body
  show "fst (make_request
                (rt \<lparr> session_request := (\<lambda>q. (session_request rt q) \<lparr> resp_json := body \<rparr>) \<rparr>)
                self operation endpoint payload data headers) =
              Inl (LimitReachedError limit_message)"
    using assms by (simp add: make_request_result Let_def)
qed

theorem limit_reached_on_429_witness:
  "resp_status_code (session_request (prepared 429 rate_headers ''Too Many Requests'' None)
       (call_args ''get'' ''test_endpoint3'' None None None)) = 429
   \<and> fst (make_request (prepared 429 rate_headers ''Too Many Requests'' None) TEST_INSTANCE
            ''get'' ''test_endpoint3'' None None None) =
       Inl (LimitReachedError
         ''You have reached your request limit. Please wait one hour before trying again.'')"
proof -
  have st: "resp_status_code (session_request (prepared 429 rate_headers ''Too Many Requests'' None)
       (call_args ''get'' ''test_endpoint3'' None None None)) = 429"
    by (simp add: prepared_def)
  from limit_reached_on_429 [OF refl st, of TEST_INSTANCE] st show ?thesis
    by (simp add: limit_message_def)
qed

text \<open>
  Claim C3. When the response has a status other than 200, 201, 429, 503 and 504 and its
  body decodes to a JSON object: if the object has a \<open>message\<close> key, \<open>_make_request\<close>
  raises \<open>RequestError\<close> with the message \<open>Status Code <code> - <value>\<close> for the
  value under \<open>message\<close>; if it has no \<open>message\<close> key but an \<open>error\<close> key, the value
  under \<open>error\<close> takes that place.
\<close>

theorem other_status_message_or_error:
  assumes "session_request rt (call_args operation endpoint payload data headers) = r"
      and "resp_status_code r \<notin> {200, 201, 429, 503, 504}"
      and "resp_json r = Some (PyDict d)"
  shows "(map_of d ''message'' = Some x \<longrightarrow>
            fst (make_request rt self operation endpoint payload data headers) =
              Inl (RequestError (''Status Code '' @ str_int (resp_status_code r) @ '' - ''
                                   @ format_arg (repr rt) x)))
       \<and> (map_of d ''message'' = None \<and> map_of d ''error'' = Some y \<longrightarrow>
            fst (make_request rt self operation endpoint payload data headers) =
              Inl (RequestError (''Status Code '' @ str_int (resp_status_code r) @ '' - ''
                                   @ format_arg (repr rt) y)))"
  using assms
  by (auto simp: make_request_result Let_def status_message_def error_field_message
      error_field_error)

theorem other_status_message_or_error_witness:
  "fst (make_request
          (prepared 422 rate_headers ''Unprocessable Entity''
             (Some (PyDict [(''message'', PyStr ''error message'')])))
          TEST_INSTANCE ''get'' ''test_endpoint2'' None None None) =
     Inl (RequestError ''Status Code 422 - error message'')
   \<and> fst (make_request
          (prepared 404 rate_headers ''Not Found''
             (Some (PyDict [(''error'', PyStr ''error message'')])))
          TEST_INSTANCE ''get'' ''test_endpoint1'' None None None) =
     Inl (RequestError ''Status Code 404 - error message'')"
proof -
  have d422: "str_int 422 = ''422''" and d404: "str_int 404 = ''404''"
    by (simp_all add: str_int_def str_nat.simps digit_char_def)
  have st422: "resp_status_code (session_request
          (prepared 422 rate_headers ''Unprocessable Entity''
             (Some (PyDict [(''message'', PyStr ''error message'')])))
          (call_args ''get'' ''test_endpoint2'' None None None)) \<notin> {200, 201, 429, 503, 504}"
    by (simp add: prepared_def)
  have b422: "resp_json (session_request
          (prepared 422 rate_headers ''Unprocessable Entity''
             (Some (PyDict [(''message'', PyStr ''error message'')])))
          (call_args ''get'' ''test_endpoint2'' None None None)) =
        Some (PyDict [(''message'', PyStr ''error message'')])"
    by (simp add: prepared_def)
  have st404: "resp_status_code (session_request
          (prepared 404 rate_headers ''Not Found''
             (Some (PyDict [(''error'', PyStr ''error message'')])))
          (call_args ''get'' ''test_endpoint1'' None None None)) \<notin> {200, 201, 429, 503, 504}"
    by (simp add: prepared_def)
  have b404: "resp_json (session_request
          (prepared 404 rate_headers ''Not Found''
             (Some (PyDict [(''error'', PyStr ''error message'')])))
          (call_args ''get'' ''test_endpoint1'' None None None)) =
        Some (PyDict [(''error'', PyStr ''error message'')])"
    by (simp add: prepared_def)
  from other_status_message_or_error [OF refl st422 b422,
      of "PyStr ''error message''" TEST_INSTANCE]
  have first: "fst (make_request
          (prepared 422 rate_headers ''Unprocessable Entity''
             (Some (PyDict [(''message'', PyStr ''error message'')])))
          TEST_INSTANCE ''get'' ''test_endpoint2'' None None None) =
     Inl (RequestError ''Status Code 422 - error message'')"
    by (simp add: prepared_def d422 format_arg_def)
  from other_status_message_or_error [OF refl st404 b404,
      of _ TEST_INSTANCE "PyStr ''error message''"]
  have second: "fst (make_request
          (prepared 404 rate_headers ''Not Found''
             (Some (PyDict [(''error'', PyStr ''error message'')])))
          TEST_INSTANCE ''get'' ''test_endpoint1'' None None None) =
     Inl (RequestError ''Status Code 404 - error message'')"
    by (simp add: prepared_def d404 format_arg_def)
  from first second show ?thesis by simp
qed

text \<open>
  Claim C4. After every \<open>_make_request\<close> call, whatever the status of the response and
  whether the call returns or raises, \<open>nexus_headers\<close> holds exactly the items of the
  response headers whose name contains \<open>X-\<close> (as a case-sensitive substring), in their
  order, and nothing else. The response headers are a dict: their keys are distinct.
\<close>

theorem metadata_refreshed_on_every_call:
  assumes "session_request rt (call_args operation endpoint payload data headers) = r"
      and "distinct (map fst (resp_headers r))"
  shows "nexus_headers (snd (make_request rt self operation endpoint payload data headers)) =
           filter (\<lambda>(k, v). str_in ''X-'' k) (resp_headers r)
         \<and> (\<forall>k v. (k, v) \<in> set (nexus_headers
                  (snd (make_request rt self operation endpoint payload data headers)))
                \<longleftrightarrow> (k, v) \<in> set (resp_headers r) \<and> (\<exists>a b. k = a @ ''X-'' @ b))"
proof -
  have kept: "nexus_headers (snd (make_request rt self operation endpoint payload data headers)) =
           filter (\<lambda>(k, v). str_in ''X-'' k) (resp_headers r)"
    using assms by (simp add: make_request_state x_headers_filter)
  have "(k, v) \<in> set (filter (\<lambda>(k, v). str_in ''X-'' k) (resp_headers r))
          \<longleftrightarrow> (k, v) \<in> set (resp_headers r) \<and> (\<exists>a b. k = a @ ''X-'' @ b)" for k v
    by (simp add: str_in_iff)
  with kept show ?thesis by simp
qed

theorem metadata_refreshed_on_every_call_witness:
  "distinct (map fst rate_headers)
   \<and> nexus_headers (snd (make_request (prepared 404 rate_headers ''Not Found'' None)
        TEST_INSTANCE ''get'' ''test_endpoint1'' None None None)) =
       [(''X-RL-Daily-Remaining'', ''2499''), (''X-RL-Hourly-Remaining'', ''99'')]"
proof -
  have sent: "session_request (prepared 404 rate_headers ''Not Found'' None)
       (call_args ''get'' ''test_endpoint1'' None None None) =
     \<lparr> resp_status_code = 404, resp_headers = rate_headers, resp_reason = ''Not Found'',
       resp_json = None \<rparr>"
    by (simp add: prepared_def)
  have keys: "distinct (map fst rate_headers)"
    by (simp add: rate_headers_def)
  then have keys': "distinct (map fst (resp_headers
     \<lparr> resp_status_code = 404, resp_headers = rate_headers, resp_reason = ''Not Found'',
       resp_json = None \<rparr>))"
    by simp
  from metadata_refreshed_on_every_call [OF sent keys', of TEST_INSTANCE]
  have "nexus_headers (snd (make_request (prepared 404 rate_headers ''Not Found'' None)
        TEST_INSTANCE ''get'' ''test_endpoint1'' None None None)) =
        filter (\<lambda>(k, v). str_in ''X-'' k) rate_headers"
    by simp
  with keys show ?thesis by (simp add: rate_headers_def)
qed

text \<open>
  Claim C5. When the response has status 503 or 504, \<open>_make_request\<close> raises
  \<open>RequestError\<close> with the message \<open>Status Code <code> - <reason>\<close>, made of the
  numeric status code and the reason phrase of the response. The body plays no part:
  with any other body in its place, decodable or not, the outcome is the same.
\<close>

theorem unavailable_on_503_504:
  assumes "session_request rt (call_args operation endpoint payload data headers) = r"
      and "resp_status_code r = 503 \<or> resp_status_code r = 504"
  shows "fst (make_request rt self operation endpoint payload data headers) =
           Inl (RequestError
                  (''Status Code '' @ str_int (resp_status_code r) @ '' - '' @ resp_reason r))
         \<and> (\<forall>body. fst (make_request
                (rt \<lparr> session_request := (\<lambda>q. (session_request rt q) \<lparr> resp_json := body \<rparr>) \<rparr>)
                self operation endpoint payload data headers) =
              Inl (RequestError
                  (''Status Code '' @ str_int (resp_status_code r) @ '' - '' @ resp_reason r)))"
  using assms by (auto simp: make_request_result Let_def status_message_def)

theorem unavailable_on_503_504_witness:
  "resp_status_code (session_request (prepared 503 rate_headers ''Service Unavailable'' None)
       (call_args ''get'' ''games.json'' None None None)) = 503
   \<and> fst (make_request (prepared 503 rate_headers ''Service Unavailable'' None) TEST_INSTANCE
            ''get'' ''games.json'' None None None) =
       Inl (RequestError ''Status Code 503 - Service Unavailable'')"
proof -
  have st: "resp_status_code (session_request (prepared 503 rate_headers ''Service Unavailable'' None)
       (call_args ''get'' ''games.json'' None None None)) = 503"
    by (simp add: prepared_def)
  then have either: "resp_status_code (session_request (prepared 503 rate_headers ''Service Unavailable'' None)
       (call_args ''get'' ''games.json'' None None None)) = 503
     \<or> resp_status_code (session_request (prepared 503 rate_headers ''Service Unavailable'' None)
       (call_args ''get'' ''games.json'' None None None)) = 504"
    by simp
  have digits: "str_int 503 = ''503''"
    by (simp add: str_int_def str_nat.simps digit_char_def)
  from unavailable_on_503_504 [OF refl either, of TEST_INSTANCE] st digits show ?thesis
    by (simp add: prepared_def)
qed

text \<open>
  Claim C6. \<open>game_updated_list\<close> with a \<open>period\<close> other than \<open>"1d"\<close>, \<open>"1w"\<close> and
  \<open>"1m"\<close> raises ValueError and leaves the object as it was: no request reaches the
  transport. With one of the three, exactly one request goes out, and its query
  parameters are the single item \<open>period\<close> with the given value.
\<close>

theorem game_updated_list_validates_period:
  "(period \<notin> {PyStr ''1d'', PyStr ''1w'', PyStr ''1m''} \<longrightarrow>
      game_updated_list rt self game period = (Inl (ValueError period_message), self)
      \<and> calls (snd (game_updated_list rt self game period)) = calls self)
   \<and> (period \<in> {PyStr ''1d'', PyStr ''1w'', PyStr ''1m''} \<longrightarrow>
      calls (snd (game_updated_list rt self game period)) =
        calls self @
          [\<lparr> req_method = ''GET'',
              req_url = BASE_URL @ ''games/'' @ format_arg (repr rt) game @ ''/mods/updated.json'',
              req_params = [(''period'', period)], req_data = [], req_headers = [],
              req_timeout = 30 \<rparr>])"
  by (auto simp: game_updated_list_def make_request_calls call_args_def or_empty_def upper_get)

theorem game_updated_list_validates_period_witness:
  "game_updated_list (prepared 200 rate_headers ''OK'' (Some TEST_JSON)) TEST_INSTANCE
       (PyStr ''game_id'') (PyStr ''1y'') =
     (Inl (ValueError period_message), TEST_INSTANCE)
   \<and> calls (snd (game_updated_list (prepared 200 rate_headers ''OK'' (Some TEST_JSON))
        TEST_INSTANCE (PyStr ''game_id'') (PyStr ''1d''))) =
       [\<lparr> req_method = ''GET'',
           req_url = ''https://api.nexusmods.com/v1/games/game_id/mods/updated.json'',
           req_params = [(''period'', PyStr ''1d'')], req_data = [], req_headers = [],
           req_timeout = 30 \<rparr>]"
proof -
  have bad: "PyStr ''1y'' \<notin> {PyStr ''1d'', PyStr ''1w'', PyStr ''1m''}" by simp
  have good: "PyStr ''1d'' \<in> {PyStr ''1d'', PyStr ''1w'', PyStr ''1m''}" by simp
  from game_updated_list_validates_period
         [of "PyStr ''1y''" "prepared 200 rate_headers ''OK'' (Some TEST_JSON)" TEST_INSTANCE
             "PyStr ''game_id''"] bad
  have first: "game_updated_list (prepared 200 rate_headers ''OK'' (Some TEST_JSON))
       TEST_INSTANCE (PyStr ''game_id'') (PyStr ''1y'') =
     (Inl (ValueError period_message), TEST_INSTANCE)"
    by blast
  from game_updated_list_validates_period
         [of "PyStr ''1d''" "prepared 200 rate_headers ''OK'' (Some TEST_JSON)" TEST_INSTANCE
             "PyStr ''game_id''"] good
  have "calls (snd (game_updated_list (prepared 200 rate_headers ''OK'' (Some TEST_JSON))
        TEST_INSTANCE (PyStr ''game_id'') (PyStr ''1d''))) =
        calls TEST_INSTANCE @
       [\<lparr> req_method = ''GET'',
           req_url = BASE_URL @ ''games/''
              @ format_arg (repr (prepared 200 rate_headers ''OK'' (Some TEST_JSON)))
                  (PyStr ''game_id'') @ ''/mods/updated.json'',
           req_params = [(''period'', PyStr ''1d'')], req_data = [], req_headers = [],
           req_timeout = 30 \<rparr>]"
    by blast
  then have second: "calls (snd (game_updated_list (prepared 200 rate_headers ''OK'' (Some TEST_JSON))
        TEST_INSTANCE (PyStr ''game_id'') (PyStr ''1d''))) =
       [\<lparr> req_method = ''GET'',
           req_url = ''https://api.nexusmods.com/v1/games/game_id/mods/updated.json'',
           req_params = [(''period'', PyStr ''1d'')], req_data = [], req_headers = [],
           req_timeout = 30 \<rparr>]"
    by (simp add: TEST_INSTANCE_def BASE_URL_def format_arg_def)
  from first second show ?thesis by simp
qed

text \<open>
  Claim C7. When the response has a status other than 200, 201, 429, 503 and 504 and its
  body decodes to a JSON object with neither a \<open>message\<close> nor an \<open>error\<close> key,
  \<open>_make_request\<close> raises the KeyError of the second lookup. That is neither a
  \<open>RequestError\<close> nor a \<open>LimitReachedError\<close>. The request has gone out and
  \<open>nexus_headers\<close> has been refreshed from the response all the same.
\<close>

theorem neither_field_raises_KeyError:
  assumes "session_request rt (call_args operation endpoint payload data headers) = r"
      and "resp_status_code r \<notin> {200, 201, 429, 503, 504}"
      and "resp_json r = Some (PyDict d)"
      and "map_of d ''message'' = None" and "map_of d ''error'' = None"
  shows "make_request rt self operation endpoint payload data headers =
           (Inl (KeyError ''error''),
            self \<lparr> calls := calls self @ [call_args operation endpoint payload data headers],
                   nexus_headers := x_headers (resp_headers r) \<rparr>)
         \<and> (\<forall>m. KeyError ''error'' \<noteq> RequestError m \<and> KeyError ''error'' \<noteq> LimitReachedError m)"
proof -
  have "fst (make_request rt self operation endpoint payload data headers) =
          Inl (KeyError ''error'')"
    using assms by (auto simp: make_request_result Let_def error_field_neither)
  moreover have "snd (make_request rt self operation endpoint payload data headers) =
      self \<lparr> calls := calls self @ [call_args operation endpoint payload data headers],
             nexus_headers := x_headers (resp_headers r) \<rparr>"
    using assms(1) by (simp add: make_request_state)
  ultimately show ?thesis by (simp add: prod_eq_iff)
qed

theorem neither_field_raises_KeyError_witness:
  "make_request (prepared 404 rate_headers ''Not Found'' (Some TEST_JSON))
        TEST_INSTANCE ''get'' ''test_endpoint1'' None None None =
     (Inl (KeyError ''error''),
      TEST_INSTANCE \<lparr>
        calls := [\<lparr> req_method = ''GET'',
                    req_url = ''https://api.nexusmods.com/v1/test_endpoint1'',
                    req_params = [], req_data = [], req_headers = [], req_timeout = 30 \<rparr>],
        nexus_headers := [(''X-RL-Daily-Remaining'', ''2499''),
                          (''X-RL-Hourly-Remaining'', ''99'')] \<rparr>)"
proof -
  have sent: "session_request (prepared 404 rate_headers ''Not Found'' (Some TEST_JSON))
       (call_args ''get'' ''test_endpoint1'' None None None) =
     \<lparr> resp_status_code = 404, resp_headers = rate_headers, resp_reason = ''Not Found'',
       resp_json = Some TEST_JSON \<rparr>"
    by (simp add: prepared_def)
  have st: "resp_status_code \<lparr> resp_status_code = 404, resp_headers = rate_headers,
       resp_reason = ''Not Found'', resp_json = Some TEST_JSON \<rparr> \<notin> {200, 201, 429, 503, 504}"
    by simp
  have body: "resp_json \<lparr> resp_status_code = 404, resp_headers = rate_headers,
       resp_reason = ''Not Found'', resp_json = Some TEST_JSON \<rparr> =
       Some (PyDict [(''test'', PyStr ''content'')])"
    by (simp add: TEST_JSON_def)
  have no_message: "map_of [(''test'', PyStr ''content'')] ''message'' = None"
    and no_error: "map_of [(''test'', PyStr ''content'')] ''error'' = None"
    by simp_all
  from neither_field_raises_KeyError [OF sent st body no_message no_error, of TEST_INSTANCE]
  show ?thesis
    by (simp add: call_args_def or_empty_def upper_get BASE_URL_def TEST_INSTANCE_def
        x_headers_def rate_headers_def)
qed

text \<open>
  Claim C8. \<open>mod_file_download_link\<close> without \<open>nxm_key\<close> and \<open>expires\<close>, and
  \<open>mod_file_list\<close> without \<open>categories\<close>, issue a request whose query parameters are
  the empty dict: no key at all, rather than keys with empty values.
\<close>

theorem omitted_optionals_send_no_params:
  "calls (snd (mod_file_download_link rt self game mod_id file_id PyNone PyNone)) =
     calls self @
       [\<lparr> req_method = ''GET'',
           req_url = BASE_URL @ ''games/'' @ format_arg (repr rt) game @ ''/mods/''
                       @ format_arg (repr rt) mod_id @ ''/files/''
                       @ format_arg (repr rt) file_id @ ''/download_link.json'',
           req_params = [], req_data = [], req_headers = [], req_timeout = 30 \<rparr>]
   \<and> calls (snd (mod_file_list rt self game mod_id PyNone)) =
     calls self @
       [\<lparr> req_method = ''GET'',
           req_url = BASE_URL @ ''games/'' @ format_arg (repr rt) game @ ''/mods/''
                       @ format_arg (repr rt) mod_id @ ''/files.json'',
           req_params = [], req_data = [], req_headers = [], req_timeout = 30 \<rparr>]"
  by (simp add: mod_file_download_link_def mod_file_list_def category_payload_def
      make_request_calls call_args_def or_empty_def upper_get)

theorem omitted_optionals_send_no_params_witness:
  "calls (snd (mod_file_download_link (prepared 200 rate_headers ''OK'' (Some TEST_JSON))
       TEST_INSTANCE (PyStr ''game_id'') (PyStr ''mod_id'') (PyStr ''file_id'') PyNone PyNone)) =
     [\<lparr> req_method = ''GET'',
         req_url = ''https://api.nexusmods.com/v1/games/game_id/mods/mod_id/files/file_id/download_link.json'',
         req_params = [], req_data = [], req_headers = [], req_timeout = 30 \<rparr>]
   \<and> calls (snd (mod_file_list (prepared 200 rate_headers ''OK'' (Some TEST_JSON))
       TEST_INSTANCE (PyStr ''game_id'') (PyInt 42) PyNone)) =
     [\<lparr> req_method = ''GET'',
         req_url = ''https://api.nexusmods.com/v1/games/game_id/mods/42/files.json'',
         req_params = [], req_data = [], req_headers = [], req_timeout = 30 \<rparr>]"
proof -
  have digits: "str_int 42 = ''42''"
    by (simp add: str_int_def str_nat.simps digit_char_def)
  from omitted_optionals_send_no_params
         [of "prepared 200 rate_headers ''OK'' (Some TEST_JSON)" TEST_INSTANCE
             "PyStr ''game_id''" "PyStr ''mod_id''" "PyStr ''file_id''"]
  have first: "calls (snd (mod_file_download_link (prepared 200 rate_headers ''OK'' (Some TEST_JSON))
       TEST_INSTANCE (PyStr ''game_id'') (PyStr ''mod_id'') (PyStr ''file_id'') PyNone PyNone)) =
     [\<lparr> req_method = ''GET'',
         req_url = ''https://api.nexusmods.com/v1/games/game_id/mods/mod_id/files/file_id/download_link.json'',
         req_params = [], req_data = [], req_headers = [], req_timeout = 30 \<rparr>]"
    by (simp add: TEST_INSTANCE_def BASE_URL_def format_arg_def)
  from omitted_optionals_send_no_params
         [of "prepared 200 rate_headers ''OK'' (Some TEST_JSON)" TEST_INSTANCE
             "PyStr ''game_id''" "PyInt 42"]
  have second: "calls (snd (mod_file_list (prepared 200 rate_headers ''OK'' (Some TEST_JSON))
       TEST_INSTANCE (PyStr ''game_id'') (PyInt 42) PyNone)) =
     [\<lparr> req_method = ''GET'',
         req_url = ''https://api.nexusmods.com/v1/games/game_id/mods/42/files.json'',
         req_params = [], req_data = [], req_headers = [], req_timeout = 30 \<rparr>]"
    by (simp add: TEST_INSTANCE_def BASE_URL_def format_arg_def digits)
  from first second show ?thesis by simp
qed

text \<open>
  Claim C9. Every \<open>user_tracked_add(game, mod_id)\<close> hands the transport one POST
  request to \<open>user/tracked_mods.json\<close> with query parameters \<open>domain_name = game\<close>, form
  data \<open>mod_id = mod_id\<close> and the call header
  \<open>content-type: application/x-www-form-urlencoded\<close>. In the merged headers of that
  call the content type is the call's, and every other persistent header is as in the
  session. The persistent headers of the session are unchanged by the call; for an object
  made by the constructor their content type is, and stays, \<open>application/json\<close>.
\<close>

theorem user_tracked_add_request:
  "calls (snd (user_tracked_add rt self game mod_id)) =
     calls self @
       [\<lparr> req_method = ''POST'',
           req_url = BASE_URL @ ''user/tracked_mods.json'',
           req_params = [(''domain_name'', game)],
           req_data = [(''mod_id'', mod_id)],
           req_headers = [(''content-type'', ''application/x-www-form-urlencoded'')],
           req_timeout = 30 \<rparr>]
   \<and> session_headers (snd (user_tracked_add rt self game mod_id)) = session_headers self
   \<and> ci_get (merged_headers self (last (calls (snd (user_tracked_add rt self game mod_id)))))
         ''content-type'' = Some ''application/x-www-form-urlencoded''
   \<and> (lower k \<noteq> lower ''content-type'' \<longrightarrow>
        ci_get (merged_headers self (last (calls (snd (user_tracked_add rt self game mod_id)))))
          k = ci_get (session_headers self) k)
   \<and> ci_get (session_headers (init rt api_key)) ''content-type'' = Some ''application/json''
   \<and> ci_get (session_headers (snd (user_tracked_add rt (init rt api_key) game mod_id)))
         ''content-type'' = Some ''application/json''"
  by (simp add: user_tracked_add_def snd_returns_none make_request_calls
      make_request_session_headers call_args_def or_empty_def upper_post merged_headers_def
      ci_update_def init_def ci_get_ci_set_same ci_get_ci_set_other)

theorem user_tracked_add_request_witness:
  "calls (snd (user_tracked_add (prepared 200 rate_headers ''OK'' (Some TEST_JSON))
       TEST_INSTANCE (PyStr ''game'') (PyStr ''mod_id''))) =
     [\<lparr> req_method = ''POST'',
         req_url = ''https://api.nexusmods.com/v1/user/tracked_mods.json'',
         req_params = [(''domain_name'', PyStr ''game'')],
         req_data = [(''mod_id'', PyStr ''mod_id'')],
         req_headers = [(''content-type'', ''application/x-www-form-urlencoded'')],
         req_timeout = 30 \<rparr>]
   \<and> session_headers (snd (user_tracked_add (prepared 200 rate_headers ''OK'' (Some TEST_JSON))
       TEST_INSTANCE (PyStr ''game'') (PyStr ''mod_id''))) =
     [(''user-agent'', ''pynxm/0.1.0''), (''Accept'', ''*/*''), (''apikey'', ''test-key''),
      (''content-type'', ''application/json'')]
   \<and> lower ''apikey'' \<noteq> lower ''content-type''
   \<and> ci_get (merged_headers TEST_INSTANCE
         (last (calls (snd (user_tracked_add (prepared 200 rate_headers ''OK'' (Some TEST_JSON))
            TEST_INSTANCE (PyStr ''game'') (PyStr ''mod_id''))))))
         ''apikey'' = Some ''test-key''"
proof -
  have other: "lower ''apikey'' \<noteq> lower ''content-type''"
    by (simp add: lower_def)
  have key: "ci_get (session_headers TEST_INSTANCE) ''apikey'' = Some ''test-key''"
    by (simp add: TEST_INSTANCE_def lower_def lower_char_def lowers_def uppers_def)
  note run = user_tracked_add_request
         [where rt = "prepared 200 rate_headers ''OK'' (Some TEST_JSON)"
            and self = TEST_INSTANCE and game = "PyStr ''game''" and mod_id = "PyStr ''mod_id''"
            and k = "''apikey''" and api_key = "''test-key''"]
  from run have sent: "calls (snd (user_tracked_add (prepared 200 rate_headers ''OK'' (Some TEST_JSON))
       TEST_INSTANCE (PyStr ''game'') (PyStr ''mod_id''))) =
     [\<lparr> req_method = ''POST'',
         req_url = ''https://api.nexusmods.com/v1/user/tracked_mods.json'',
         req_params = [(''domain_name'', PyStr ''game'')],
         req_data = [(''mod_id'', PyStr ''mod_id'')],
         req_headers = [(''content-type'', ''application/x-www-form-urlencoded'')],
         req_timeout = 30 \<rparr>]"
    by (simp add: TEST_INSTANCE_def BASE_URL_def)
  from run have kept: "session_headers (snd (user_tracked_add
       (prepared 200 rate_headers ''OK'' (Some TEST_JSON))
       TEST_INSTANCE (PyStr ''game'') (PyStr ''mod_id''))) =
     [(''user-agent'', ''pynxm/0.1.0''), (''Accept'', ''*/*''), (''apikey'', ''test-key''),
      (''content-type'', ''application/json'')]"
    by (simp add: TEST_INSTANCE_def)
  from run other have "ci_get (merged_headers TEST_INSTANCE
         (last (calls (snd (user_tracked_add (prepared 200 rate_headers ''OK'' (Some TEST_JSON))
            TEST_INSTANCE (PyStr ''game'') (PyStr ''mod_id''))))))
         ''apikey'' = ci_get (session_headers TEST_INSTANCE) ''apikey''"
    by blast
  with key have merged: "ci_get (merged_headers TEST_INSTANCE
         (last (calls (snd (user_tracked_add (prepared 200 rate_headers ''OK'' (Some TEST_JSON))
            TEST_INSTANCE (PyStr ''game'') (PyStr ''mod_id''))))))
         ''apikey'' = Some ''test-key''"
    by simp
  from sent kept other merged show ?thesis by blast
qed

text \<open>
  Claim C10. When the transport answers with status 200 or 201 and a body that decodes
  to \<open>v\<close>, \<open>user_tracked_add\<close> and \<open>user_tracked_delete\<close> return \<open>None\<close>, while each
  of the other eighteen endpoint methods returns \<open>v\<close> (for \<open>game_updated_list\<close> and
  \<open>mod_file_list\<close>, whenever their own argument handling lets the request go out).
\<close>

theorem tracked_methods_return_none:
  assumes ok: "\<forall>q. (resp_status_code (session_request rt q) = 200
                 \<or> resp_status_code (session_request rt q) = 201)
               \<and> resp_json (session_request rt q) = Some v"
  shows "fst (user_tracked_add rt self game mod_id) = Inr PyNone
       \<and> fst (user_tracked_delete rt self game mod_id) = Inr PyNone
       \<and> fst (colour_schemes_list rt self) = Inr v
       \<and> fst (user_details rt self) = Inr v
       \<and> fst (user_tracked_list rt self) = Inr v
       \<and> fst (user_endorsements_list rt self) = Inr v
       \<and> fst (game_details rt self game) = Inr v
       \<and> fst (game_list rt self include_unapproved) = Inr v
       \<and> (period \<in> {PyStr ''1d'', PyStr ''1w'', PyStr ''1m''} \<longrightarrow>
            fst (game_updated_list rt self game period) = Inr v)
       \<and> fst (game_latest_added_list rt self game) = Inr v
       \<and> fst (game_latest_updated_list rt self game) = Inr v
       \<and> fst (game_trending_list rt self game) = Inr v
       \<and> fst (mod_details rt self game mod_id) = Inr v
       \<and> fst (mod_search rt self game md5_hash) = Inr v
       \<and> fst (mod_endorse rt self game mod_id) = Inr v
       \<and> fst (mod_abstain rt self game mod_id) = Inr v
       \<and> (category_payload categories \<noteq> Inl TypeError \<longrightarrow>
            fst (mod_file_list rt self game mod_id categories) = Inr v)
       \<and> fst (mod_file_details rt self game mod_id file_id) = Inr v
       \<and> fst (mod_file_download_link rt self game mod_id file_id nxm_key expires) = Inr v
       \<and> fst (mod_changelog_list rt self game mod_id) = Inr v"
proof -
  note mr = make_request_ok [OF ok]
  have add: "fst (user_tracked_add rt self game mod_id) = Inr PyNone"
    by (simp add: user_tracked_add_def fst_returns_none mr)
  have del: "fst (user_tracked_delete rt self game mod_id) = Inr PyNone"
    by (simp add: user_tracked_delete_def fst_returns_none mr)
  have upd: "period \<in> {PyStr ''1d'', PyStr ''1w'', PyStr ''1m''} \<longrightarrow>
            fst (game_updated_list rt self game period) = Inr v"
    by (auto simp: game_updated_list_def mr)
  have cat_err: "\<And>e. category_payload categories = Inl e \<Longrightarrow> e = TypeError"
    by (auto simp: category_payload_def join_def split: py.splits if_splits)
  have files: "category_payload categories \<noteq> Inl TypeError \<longrightarrow>
            fst (mod_file_list rt self game mod_id categories) = Inr v"
    using cat_err by (auto simp: mod_file_list_def mr split: sum.splits)
  have link: "fst (mod_file_download_link rt self game mod_id file_id nxm_key expires) = Inr v"
    by (simp add: mod_file_download_link_def Let_def mr)
  show ?thesis
    using add del upd files link
    by (simp add: colour_schemes_list_def user_details_def user_tracked_list_def
        user_endorsements_list_def game_details_def game_list_def game_latest_added_list_def
        game_latest_updated_list_def game_trending_list_def mod_details_def mod_search_def
        mod_endorse_def mod_abstain_def mod_file_details_def mod_changelog_list_def mr)
qed

theorem tracked_methods_return_none_witness:
  "fst (user_tracked_add (prepared 200 rate_headers ''OK'' (Some TEST_JSON))
       TEST_INSTANCE (PyStr ''game'') (PyStr ''mod_id'')) = Inr PyNone
   \<and> fst (user_tracked_delete (prepared 200 rate_headers ''OK'' (Some TEST_JSON))
       TEST_INSTANCE (PyStr ''game'') (PyStr ''mod_id'')) = Inr PyNone
   \<and> fst (user_tracked_list (prepared 200 rate_headers ''OK'' (Some TEST_JSON))
       TEST_INSTANCE) = Inr TEST_JSON
   \<and> fst (game_updated_list (prepared 200 rate_headers ''OK'' (Some TEST_JSON))
       TEST_INSTANCE (PyStr ''game'') (PyStr ''1d'')) = Inr TEST_JSON
   \<and> fst (mod_file_list (prepared 200 rate_headers ''OK'' (Some TEST_JSON))
       TEST_INSTANCE (PyStr ''game'') (PyStr ''mod_id'')
       (PyList [PyStr ''main'', PyStr ''update''])) = Inr TEST_JSON"
proof -
  have ok: "\<forall>q. (resp_status_code
                   (session_request (prepared 200 rate_headers ''OK'' (Some TEST_JSON)) q) = 200
                 \<or> resp_status_code
                   (session_request (prepared 200 rate_headers ''OK'' (Some TEST_JSON)) q) = 201)
               \<and> resp_json (session_request (prepared 200 rate_headers ''OK'' (Some TEST_JSON)) q)
                   = Some TEST_JSON"
    by (simp add: prepared_def)
  have period: "PyStr ''1d'' \<in> {PyStr ''1d'', PyStr ''1w'', PyStr ''1m''}" by simp
  have cats: "category_payload (PyList [PyStr ''main'', PyStr ''update'']) \<noteq> Inl TypeError"
    by (simp add: category_payload_def join_def)
  from tracked_methods_return_none
         [OF ok, where self = TEST_INSTANCE and game = "PyStr ''game''"
            and mod_id = "PyStr ''mod_id''" and period = "PyStr ''1d''"
            and categories = "PyList [PyStr ''main'', PyStr ''update'']"]
       period cats
  show ?thesis by blast
qed

end
